theory Spec2Isabelle
  imports Complex_Main
begin

section \<open>Dense matrices and vectors\<close>

text \<open>
  The least-squares routines of \<^verbatim>\<open>linearAlgebra.cpp\<close> work on the dynamically sized
  matrices and vectors of the Eigen library (\<^verbatim>\<open>Eigen::MatrixXd\<close>, \<^verbatim>\<open>Eigen::VectorXd\<close>).
  A matrix carries its two dimensions and its coefficients; a matrix with rows and no
  column, or with columns and no row, is a legal value, so the dimensions are fields of
  their own. A vector is the list of its coefficients.

  The scalar type is a type variable. The definitions only ask for the operations the
  code uses (\<open>0\<close>, \<open>1\<close>, \<open>+\<close>, \<open>*\<close>, \<open>/\<close>, \<open><\<close>); theorems that hold by the shape of the
  code alone are stated for every scalar type, theorems that compare the code with a
  formula of linear algebra are stated for scalars with exact arithmetic (a commutative
  semiring, of which \<open>real\<close> is an instance), where rounding is left out.
\<close>

record 'a matrix =
  nrows :: nat
  ncols :: nat
  coeffs :: "'a list list"

type_synonym 'a vector = "'a list"

definition wf_matrix :: "'a matrix \<Rightarrow> bool" where
  "wf_matrix M = (length (coeffs M) = nrows M \<and> list_all (\<lambda>row. length row = ncols M) (coeffs M))"

definition coeff :: "'a matrix \<Rightarrow> nat \<Rightarrow> nat \<Rightarrow> 'a" where
  "coeff M i j = coeffs M ! i ! j"

definition mk_matrix :: "nat \<Rightarrow> nat \<Rightarrow> (nat \<Rightarrow> nat \<Rightarrow> 'a) \<Rightarrow> 'a matrix" where
  "mk_matrix r c f = \<lparr>nrows = r, ncols = c, coeffs = map (\<lambda>i. map (\<lambda>j. f i j) [0..<c]) [0..<r]\<rparr>"

text \<open>
  Eigen checks the sizes and indices of its operations with \<^verbatim>\<open>eigen_assert\<close>: when a
  check fails the process stops inside the library (a build that switches the assertions
  off has undefined behaviour there instead; the model follows the library's default).
  The least-squares functions raise nothing themselves, so this is the only way they can
  fail to return. Sizes and indices are natural numbers: the 32-bit loop counters of the
  code are not modelled.
\<close>

datatype error = EigenAssertion

text \<open>What the code writes to \<^verbatim>\<open>std::cerr\<close>.\<close>

datatype 'a message = ConditionNumberWarning 'a | PolynomialFitSizeError

subsection \<open>The operations of the matrix library\<close>

text \<open>\<^verbatim>\<open>MatrixXd::Zero( r, c )\<close> and \<^verbatim>\<open>VectorXd::Constant( n, 1, v )\<close>.\<close>

definition Zero :: "nat \<Rightarrow> nat \<Rightarrow> 'a::zero matrix" where
  "Zero r c = mk_matrix r c (\<lambda>i j. 0)"

definition Constant :: "nat \<Rightarrow> 'a \<Rightarrow> 'a vector" where
  "Constant n v = replicate n v"

definition mat_transpose :: "'a matrix \<Rightarrow> 'a matrix" where
  "mat_transpose M = mk_matrix (ncols M) (nrows M) (\<lambda>i j. coeff M j i)"

text \<open>The sum of a list of products, accumulated from zero.\<close>

definition sum_of :: "'a::{zero,plus} list \<Rightarrow> 'a" where
  "sum_of xs = foldl (+) 0 xs"

text \<open>
  Sum and products without their size checks: \<open>madd\<close>, \<open>mmul\<close> and \<open>mvmul\<close> compute the
  coefficients; \<open>mat_add\<close>, \<open>mat_mul\<close> and \<open>mat_vec_mul\<close> are Eigen's operators, which
  first assert that the sizes fit.
\<close>

definition madd :: "'a::plus matrix \<Rightarrow> 'a matrix \<Rightarrow> 'a matrix" where
  "madd A B = mk_matrix (nrows A) (ncols A) (\<lambda>i j. coeff A i j + coeff B i j)"

definition mmul :: "'a::{zero,plus,times} matrix \<Rightarrow> 'a matrix \<Rightarrow> 'a matrix" where
  "mmul A B = mk_matrix (nrows A) (ncols B)
     (\<lambda>i j. sum_of (map (\<lambda>k. coeff A i k * coeff B k j) [0..<ncols A]))"

definition mvmul :: "'a::{zero,plus,times} matrix \<Rightarrow> 'a vector \<Rightarrow> 'a vector" where
  "mvmul A v = map (\<lambda>i. sum_of (map (\<lambda>k. coeff A i k * v ! k) [0..<ncols A])) [0..<nrows A]"

definition mat_add :: "'a::plus matrix \<Rightarrow> 'a matrix \<Rightarrow> error + 'a matrix" where
  "mat_add A B =
     (if nrows A = nrows B \<and> ncols A = ncols B then Inr (madd A B) else Inl EigenAssertion)"

definition mat_mul :: "'a::{zero,plus,times} matrix \<Rightarrow> 'a matrix \<Rightarrow> error + 'a matrix" where
  "mat_mul A B = (if ncols A = nrows B then Inr (mmul A B) else Inl EigenAssertion)"

definition mat_vec_mul :: "'a::{zero,plus,times} matrix \<Rightarrow> 'a vector \<Rightarrow> error + 'a vector" where
  "mat_vec_mul A v = (if ncols A = length v then Inr (mvmul A v) else Inl EigenAssertion)"

text \<open>\<^verbatim>\<open>u.cwiseProduct( v )\<close> on two column vectors: the sizes must be equal.\<close>

definition cwiseProduct :: "'a::times vector \<Rightarrow> 'a vector \<Rightarrow> error + 'a vector" where
  "cwiseProduct u v =
     (if length u = length v then Inr (map2 (*) u v) else Inl EigenAssertion)"

text \<open>
  \<^verbatim>\<open>M.block( 0, i, M.rows( ), 1 )\<close>: column \<open>i\<close> of \<open>M\<close>, read (\<open>block_column\<close>) and
  assigned (\<open>set_block_column\<close>). The block exists when \<open>i\<close> is a column of \<open>M\<close>; the
  assigned vector must have the size of the block.
\<close>

definition block_column :: "'a matrix \<Rightarrow> nat \<Rightarrow> error + 'a vector" where
  "block_column M i =
     (if i < ncols M then Inr (map (\<lambda>r. coeff M r i) [0..<nrows M]) else Inl EigenAssertion)"

definition set_block_column :: "'a matrix \<Rightarrow> nat \<Rightarrow> 'a vector \<Rightarrow> error + 'a matrix" where
  "set_block_column M i v =
     (if i < ncols M \<and> length v = nrows M
      then Inr (mk_matrix (nrows M) (ncols M) (\<lambda>r j. if j = i then v ! r else coeff M r j))
      else Inl EigenAssertion)"

text \<open>\<^verbatim>\<open>M( i, j ) = v\<close>: the indices must lie inside the matrix.\<close>

definition set_coeff :: "'a matrix \<Rightarrow> nat \<Rightarrow> nat \<Rightarrow> 'a \<Rightarrow> error + 'a matrix" where
  "set_coeff M i j v =
     (if i < nrows M \<and> j < ncols M
      then Inr (mk_matrix (nrows M) (ncols M) (\<lambda>r c. if r = i \<and> c = j then v else coeff M r c))
      else Inl EigenAssertion)"

section \<open>The weighted normal equations\<close>

text \<open>
  \<^verbatim>\<open>multiplyInformationMatrixByDiagonalWeightMatrix\<close>: a zero matrix of the size of the
  information matrix is filled column by column; column \<open>i\<close> is the coefficient-wise
  product of column \<open>i\<close> of the information matrix with the weights. \<open>weightColumns\<close> is
  the loop over the column indices.
\<close>

fun weightColumns :: "'a::times matrix \<Rightarrow> 'a vector \<Rightarrow> nat list \<Rightarrow> 'a matrix \<Rightarrow> error + 'a matrix" where
  "weightColumns H w [] W = Inr W"
| "weightColumns H w (i # is) W =
     (case block_column H i of
        Inl e \<Rightarrow> Inl e
      | Inr column \<Rightarrow>
          (case cwiseProduct column w of
             Inl e \<Rightarrow> Inl e
           | Inr weighted \<Rightarrow>
               (case set_block_column W i weighted of
                  Inl e \<Rightarrow> Inl e
                | Inr W' \<Rightarrow> weightColumns H w is W')))"

definition multiplyInformationMatrixByDiagonalWeightMatrix ::
  "'a::{zero,times} matrix \<Rightarrow> 'a vector \<Rightarrow> error + 'a matrix" where
  "multiplyInformationMatrixByDiagonalWeightMatrix informationMatrix diagonalOfWeightMatrix =
     weightColumns informationMatrix diagonalOfWeightMatrix [0..<ncols informationMatrix]
       (Zero (nrows informationMatrix) (ncols informationMatrix))"

text \<open>
  \<^verbatim>\<open>calculateInverseOfUpdatedCovarianceMatrix\<close>, with and without the inverse of the
  a-priori covariance.
\<close>

definition calculateInverseOfUpdatedCovarianceMatrix ::
  "'a::{zero,plus,times} matrix \<Rightarrow> 'a vector \<Rightarrow> 'a matrix \<Rightarrow> error + 'a matrix" where
  "calculateInverseOfUpdatedCovarianceMatrix informationMatrix diagonalOfWeightMatrix
       inverseOfAPrioriCovarianceMatrix =
     (case multiplyInformationMatrixByDiagonalWeightMatrix informationMatrix diagonalOfWeightMatrix of
        Inl e \<Rightarrow> Inl e
      | Inr weightedInformationMatrix \<Rightarrow>
          (case mat_mul (mat_transpose informationMatrix) weightedInformationMatrix of
             Inl e \<Rightarrow> Inl e
           | Inr normalMatrix \<Rightarrow> mat_add inverseOfAPrioriCovarianceMatrix normalMatrix))"

definition calculateInverseOfUpdatedCovarianceMatrix_noPrior ::
  "'a::{zero,plus,times} matrix \<Rightarrow> 'a vector \<Rightarrow> error + 'a matrix" where
  "calculateInverseOfUpdatedCovarianceMatrix_noPrior informationMatrix diagonalOfWeightMatrix =
     calculateInverseOfUpdatedCovarianceMatrix informationMatrix diagonalOfWeightMatrix
       (Zero (ncols informationMatrix) (ncols informationMatrix))"

section \<open>Solving with a singular value decomposition\<close>

text \<open>
  \<^verbatim>\<open>Eigen::JacobiSVD\<close> is code of the matrix library. A decomposition is modelled by
  what the code reads from it: the vector of singular values and the function that
  solves for a right-hand side. The factorisation \<^verbatim>\<open>M.jacobiSvd( options )\<close> is a
  parameter \<open>jacobiSvd\<close> of every function that decomposes a matrix; it is taken to
  return a decomposition for every matrix.
\<close>

datatype svd_options = ComputeThinU_ComputeThinV | ComputeThinU_ComputeFullV

record 'a svd =
  singularValues :: "'a vector"
  solve :: "'a vector \<Rightarrow> 'a vector"

type_synonym 'a svd_backend = "svd_options \<Rightarrow> 'a matrix \<Rightarrow> 'a svd"

definition getSVDDecompositionOfInformationMatrix :: "'a svd_backend \<Rightarrow> 'a matrix \<Rightarrow> 'a svd" where
  "getSVDDecompositionOfInformationMatrix jacobiSvd informationMatrix =
     jacobiSvd ComputeThinU_ComputeFullV informationMatrix"

text \<open>
  \<^verbatim>\<open>singularValues( 0 ) / singularValues( singularValues.rows( ) - 1 )\<close>: both reads are
  index-checked by the library, and both are out of range when there is no singular value.
\<close>

definition getConditionNumberOfDecomposedMatrix :: "'a::inverse svd \<Rightarrow> error + 'a" where
  "getConditionNumberOfDecomposedMatrix singularValueDecomposition =
     (let values = singularValues singularValueDecomposition in
      if values = [] then Inl EigenAssertion
      else Inr (values ! 0 / values ! (length values - 1)))"

definition getConditionNumberOfInformationMatrix :: "'a::inverse svd_backend \<Rightarrow> 'a matrix \<Rightarrow> error + 'a" where
  "getConditionNumberOfInformationMatrix jacobiSvd informationMatrix =
     getConditionNumberOfDecomposedMatrix
       (getSVDDecompositionOfInformationMatrix jacobiSvd informationMatrix)"

text \<open>
  A function that may write to \<^verbatim>\<open>std::cerr\<close> returns the messages it wrote, in order,
  beside its result. \<^verbatim>\<open>svdDecomposition.solve( b )\<close> asserts that \<open>b\<close> has as many rows
  as the decomposed matrix.
\<close>

definition solveSystemOfEquationsWithSvd ::
  "'a::{inverse,ord} svd_backend \<Rightarrow> 'a matrix \<Rightarrow> 'a vector \<Rightarrow> bool \<Rightarrow> 'a
     \<Rightarrow> 'a message list \<times> (error + 'a vector)" where
  "solveSystemOfEquationsWithSvd jacobiSvd matrixToInvert rightHandSideVector
       checkConditionNumber maximumAllowedConditionNumber =
     (let svdDecomposition = jacobiSvd ComputeThinU_ComputeThinV matrixToInvert;
          solution = (if nrows matrixToInvert = length rightHandSideVector
                      then Inr (solve svdDecomposition rightHandSideVector)
                      else Inl EigenAssertion)
      in if checkConditionNumber
         then (case getConditionNumberOfDecomposedMatrix svdDecomposition of
                 Inl e \<Rightarrow> ([], Inl e)
               | Inr conditionNumber \<Rightarrow>
                   (if conditionNumber > maximumAllowedConditionNumber
                    then ([ConditionNumberWarning conditionNumber], solution)
                    else ([], solution)))
         else ([], solution))"

section \<open>Least-squares adjustment\<close>

definition on_success :: "error + 'a \<Rightarrow> ('a \<Rightarrow> error + 'b) \<Rightarrow> error + 'b" where
  "on_success r f = (case r of Inl e \<Rightarrow> Inl e | Inr x \<Rightarrow> f x)"

text \<open>
  The three overloads of \<^verbatim>\<open>performLeastSquaresAdjustmentFromInformationMatrix\<close>: with
  weights, a-priori inverse covariance and a-priori adjustment estimate; with weights
  only; with neither.
\<close>

definition performLeastSquaresAdjustmentFromInformationMatrix ::
  "'a::{zero,plus,times,inverse,ord} svd_backend \<Rightarrow> 'a matrix \<Rightarrow> 'a vector \<Rightarrow> 'a vector
     \<Rightarrow> 'a matrix \<Rightarrow> 'a vector \<Rightarrow> bool \<Rightarrow> 'a
     \<Rightarrow> 'a message list \<times> (error + 'a vector \<times> 'a matrix)" where
  "performLeastSquaresAdjustmentFromInformationMatrix jacobiSvd informationMatrix
       observationResiduals diagonalOfWeightMatrix inverseOfAPrioriCovarianceMatrix
       aPrioriAdjustmentEstimate checkConditionNumber maximumAllowedConditionNumber =
     (case on_success (cwiseProduct diagonalOfWeightMatrix observationResiduals)
             (mat_vec_mul (mat_transpose informationMatrix)) of
        Inl e \<Rightarrow> ([], Inl e)
      | Inr rightHandSide \<Rightarrow>
          (case calculateInverseOfUpdatedCovarianceMatrix informationMatrix
                  diagonalOfWeightMatrix inverseOfAPrioriCovarianceMatrix of
             Inl e \<Rightarrow> ([], Inl e)
           | Inr inverseOfCovarianceMatrix \<Rightarrow>
               (case solveSystemOfEquationsWithSvd jacobiSvd inverseOfCovarianceMatrix
                       rightHandSide checkConditionNumber maximumAllowedConditionNumber of
                  (written, solution) \<Rightarrow>
                    (written,
                     on_success solution (\<lambda>x. Inr (x, inverseOfCovarianceMatrix))))))"

definition performLeastSquaresAdjustmentFromInformationMatrix_noPrior ::
  "'a::{zero,plus,times,inverse,ord} svd_backend \<Rightarrow> 'a matrix \<Rightarrow> 'a vector \<Rightarrow> 'a vector
     \<Rightarrow> bool \<Rightarrow> 'a \<Rightarrow> 'a message list \<times> (error + 'a vector \<times> 'a matrix)" where
  "performLeastSquaresAdjustmentFromInformationMatrix_noPrior jacobiSvd informationMatrix
       observationResiduals diagonalOfWeightMatrix checkConditionNumber
       maximumAllowedConditionNumber =
     performLeastSquaresAdjustmentFromInformationMatrix jacobiSvd informationMatrix
       observationResiduals diagonalOfWeightMatrix
       (Zero (ncols informationMatrix) (ncols informationMatrix))
       (Constant (length observationResiduals) 0)
       checkConditionNumber maximumAllowedConditionNumber"

definition performLeastSquaresAdjustmentFromInformationMatrix_noWeights ::
  "'a::{zero,one,plus,times,inverse,ord} svd_backend \<Rightarrow> 'a matrix \<Rightarrow> 'a vector
     \<Rightarrow> bool \<Rightarrow> 'a \<Rightarrow> 'a message list \<times> (error + 'a vector \<times> 'a matrix)" where
  "performLeastSquaresAdjustmentFromInformationMatrix_noWeights jacobiSvd informationMatrix
       observationResiduals checkConditionNumber maximumAllowedConditionNumber =
     performLeastSquaresAdjustmentFromInformationMatrix_noPrior jacobiSvd informationMatrix
       observationResiduals (Constant (length observationResiduals) 1)
       checkConditionNumber maximumAllowedConditionNumber"

section \<open>Covariance with consider parameters\<close>

text \<open>
  \<^verbatim>\<open>M.inverse( )\<close> is code of the matrix library: it asserts that \<open>M\<close> is square and
  returns a matrix; it has no way to report a singular matrix. The routine that computes
  the coefficients is the parameter \<open>inverse_of\<close>.
\<close>

definition mat_inverse :: "('a matrix \<Rightarrow> 'a matrix) \<Rightarrow> 'a matrix \<Rightarrow> error + 'a matrix" where
  "mat_inverse inverse_of M = (if nrows M = ncols M then Inr (inverse_of M) else Inl EigenAssertion)"

definition calculateCovarianceMatrixWithConsiderParameters ::
  "('a::{zero,plus,times} matrix \<Rightarrow> 'a matrix) \<Rightarrow> 'a matrix \<Rightarrow> 'a vector \<Rightarrow> 'a matrix
     \<Rightarrow> 'a matrix \<Rightarrow> 'a matrix \<Rightarrow> error + 'a matrix" where
  "calculateCovarianceMatrixWithConsiderParameters inverse_of informationMatrix
       diagonalOfWeightMatrix inverseOfAPrioriCovarianceMatrix considerInformationMatrix
       considerCovarianceMatrix =
     on_success (calculateInverseOfUpdatedCovarianceMatrix informationMatrix
                   diagonalOfWeightMatrix inverseOfAPrioriCovarianceMatrix) (\<lambda>inverseCovariance.
     on_success (mat_inverse inverse_of inverseCovariance) (\<lambda>noiseOnlyCovariance.
     on_success (multiplyInformationMatrixByDiagonalWeightMatrix informationMatrix
                   diagonalOfWeightMatrix) (\<lambda>weightedInformationMatrix.
     on_success (mat_mul noiseOnlyCovariance (mat_transpose weightedInformationMatrix))
       (\<lambda>auxiliaryMatrix.
     on_success (mat_mul auxiliaryMatrix considerInformationMatrix) (\<lambda>projected.
     on_success (mat_mul projected considerCovarianceMatrix) (\<lambda>left.
     on_success (mat_mul (mat_transpose considerInformationMatrix)
                   (mat_transpose auxiliaryMatrix)) (\<lambda>right.
     on_success (mat_mul left right) (\<lambda>considerContribution.
     mat_add noiseOnlyCovariance considerContribution))))))))"

section \<open>Polynomial fit\<close>

text \<open>
  \<^verbatim>\<open>getLeastSquaresPolynomialFit\<close> on vectors. \<^verbatim>\<open>std::pow\<close> is the parameter \<open>pow\<close>. The
  call of the adjustment passes the information matrix and the dependent values only;
  the default values of the two condition-number arguments are in a declaration outside
  \<^verbatim>\<open>linearAlgebra.cpp\<close> and are parameters here. \<open>fillPowers\<close> is the inner loop (over the
  powers, for one sample), \<open>fillSamples\<close> the outer loop (over the samples).
\<close>

fun fillPowers ::
  "('a \<Rightarrow> 'a \<Rightarrow> 'a) \<Rightarrow> 'a vector \<Rightarrow> 'a list \<Rightarrow> nat \<Rightarrow> nat list \<Rightarrow> 'a matrix \<Rightarrow> error + 'a matrix" where
  "fillPowers pow independentValues polynomialPowers i [] partialMatrix = Inr partialMatrix"
| "fillPowers pow independentValues polynomialPowers i (j # js) partialMatrix =
     (case set_coeff partialMatrix i j (pow (independentValues ! i) (polynomialPowers ! j)) of
        Inl e \<Rightarrow> Inl e
      | Inr partialMatrix' \<Rightarrow> fillPowers pow independentValues polynomialPowers i js partialMatrix')"

fun fillSamples ::
  "('a \<Rightarrow> 'a \<Rightarrow> 'a) \<Rightarrow> 'a vector \<Rightarrow> 'a list \<Rightarrow> nat list \<Rightarrow> 'a matrix \<Rightarrow> error + 'a matrix" where
  "fillSamples pow independentValues polynomialPowers [] partialMatrix = Inr partialMatrix"
| "fillSamples pow independentValues polynomialPowers (i # is) partialMatrix =
     (case fillPowers pow independentValues polynomialPowers i
             [0..<length polynomialPowers] partialMatrix of
        Inl e \<Rightarrow> Inl e
      | Inr partialMatrix' \<Rightarrow> fillSamples pow independentValues polynomialPowers is partialMatrix')"

definition getLeastSquaresPolynomialFit ::
  "'a::{zero,one,plus,times,inverse,ord} svd_backend \<Rightarrow> ('a \<Rightarrow> 'a \<Rightarrow> 'a) \<Rightarrow> bool \<Rightarrow> 'a
     \<Rightarrow> 'a vector \<Rightarrow> 'a vector \<Rightarrow> 'a list \<Rightarrow> 'a message list \<times> (error + 'a vector)" where
  "getLeastSquaresPolynomialFit jacobiSvd pow defaultCheckConditionNumber
       defaultMaximumAllowedConditionNumber independentValues dependentValues polynomialPowers =
     (let sizeError = (if length independentValues \<noteq> length dependentValues
                       then [PolynomialFitSizeError] else [])
      in case fillSamples pow independentValues polynomialPowers
                [0..<length independentValues]
                (Zero (length dependentValues) (length polynomialPowers)) of
           Inl e \<Rightarrow> (sizeError, Inl e)
         | Inr partialMatrix \<Rightarrow>
             (case performLeastSquaresAdjustmentFromInformationMatrix_noWeights jacobiSvd
                     partialMatrix dependentValues defaultCheckConditionNumber
                     defaultMaximumAllowedConditionNumber of
                (written, adjustment) \<Rightarrow>
                  (sizeError @ written, on_success adjustment (\<lambda>pair. Inr (fst pair)))))"

section \<open>The formulas of the specification\<close>

text \<open>
  The matrices the specification names: the diagonal matrix \<open>diag(w)\<close> of a weight vector
  and the information matrix with row \<open>i\<close> scaled by \<open>w[i]\<close>.
\<close>

definition diag :: "'a::zero vector \<Rightarrow> 'a matrix" where
  "diag w = mk_matrix (length w) (length w) (\<lambda>i j. if i = j then w ! i else 0)"

definition scale_rows :: "'a::times matrix \<Rightarrow> 'a vector \<Rightarrow> 'a matrix" where
  "scale_rows H w = mk_matrix (nrows H) (ncols H) (\<lambda>i j. coeff H i j * w ! i)"

text \<open>
  The inverse covariance \<open>N = P0inv + H\<^sup>T * diag(w) * H\<close> and the right-hand side
  \<open>H\<^sup>T * (w .* r)\<close> of the normal equations, and the information matrix of a polynomial
  fit, \<open>H[i][j] = x\<^sub>i ^ p\<^sub>j\<close>.
\<close>

definition normal_matrix :: "'a::{zero,plus,times} matrix \<Rightarrow> 'a matrix \<Rightarrow> 'a vector \<Rightarrow> 'a matrix" where
  "normal_matrix P0inv H w = madd P0inv (mmul (mmul (mat_transpose H) (diag w)) H)"

definition weighted_rhs :: "'a::{zero,plus,times} matrix \<Rightarrow> 'a vector \<Rightarrow> 'a vector \<Rightarrow> 'a vector" where
  "weighted_rhs H w r = mvmul (mat_transpose H) (map2 (*) w r)"

definition power_matrix :: "('a \<Rightarrow> 'a \<Rightarrow> 'a) \<Rightarrow> 'a vector \<Rightarrow> 'a list \<Rightarrow> 'a matrix" where
  "power_matrix pow x ps = mk_matrix (length x) (length ps) (\<lambda>i j. pow (x ! i) (ps ! j))"

section \<open>Instances of the library routines\<close>

text \<open>
  The decomposition, the inverse and the power function are parameters of the model. To
  run the code on concrete inputs they are instantiated by routines that are right on
  diagonal matrices and on natural exponents: the singular values of a diagonal matrix
  are the absolute values of its diagonal in non-increasing order, and its least-squares
  solution divides by the diagonal coefficients that are not zero; the inverse of a
  diagonal matrix has the reciprocals on its diagonal.
\<close>

definition diagonal :: "'a matrix \<Rightarrow> 'a vector" where
  "diagonal M = map (\<lambda>i. coeff M i i) [0..<min (nrows M) (ncols M)]"

definition diagonalSvd :: "real svd_backend" where
  "diagonalSvd options M =
     \<lparr>singularValues = rev (sort (map abs (diagonal M))),
      solve = (\<lambda>b. map2 (\<lambda>d x. if d = 0 then 0 else x / d) (diagonal M) b)\<rparr>"

definition diagonalInverse :: "'a::{zero,one,inverse} matrix \<Rightarrow> 'a matrix" where
  "diagonalInverse M =
     mk_matrix (nrows M) (ncols M) (\<lambda>i j. if i = j then 1 / coeff M i i else 0)"

definition naturalPower :: "real \<Rightarrow> real \<Rightarrow> real" where
  "naturalPower x p = x ^ nat \<lfloor>p\<rfloor>"

text \<open>
  On \<open>real\<close> a division by zero is \<open>0\<close>; on a \<^verbatim>\<open>double\<close> it is an infinity or not a
  number, and the program goes on computing with it. Where a concrete run divides by zero,
  the scalars are the values below: the finite ones compute exactly (no rounding, no
  overflow, one zero), the others follow the floating-point rules.
\<close>

datatype dbl = Finite real | PlusInfinity | MinusInfinity | NaN

fun dbl_plus :: "dbl \<Rightarrow> dbl \<Rightarrow> dbl" where
  "dbl_plus NaN y = NaN"
| "dbl_plus x NaN = NaN"
| "dbl_plus (Finite a) (Finite b) = Finite (a + b)"
| "dbl_plus PlusInfinity MinusInfinity = NaN"
| "dbl_plus MinusInfinity PlusInfinity = NaN"
| "dbl_plus PlusInfinity y = PlusInfinity"
| "dbl_plus MinusInfinity y = MinusInfinity"
| "dbl_plus (Finite a) y = y"

fun dbl_times :: "dbl \<Rightarrow> dbl \<Rightarrow> dbl" where
  "dbl_times NaN y = NaN"
| "dbl_times x NaN = NaN"
| "dbl_times (Finite a) (Finite b) = Finite (a * b)"
| "dbl_times PlusInfinity PlusInfinity = PlusInfinity"
| "dbl_times MinusInfinity MinusInfinity = PlusInfinity"
| "dbl_times PlusInfinity MinusInfinity = MinusInfinity"
| "dbl_times MinusInfinity PlusInfinity = MinusInfinity"
| "dbl_times (Finite a) PlusInfinity =
     (if a = 0 then NaN else if 0 < a then PlusInfinity else MinusInfinity)"
| "dbl_times (Finite a) MinusInfinity =
     (if a = 0 then NaN else if 0 < a then MinusInfinity else PlusInfinity)"
| "dbl_times PlusInfinity (Finite b) =
     (if b = 0 then NaN else if 0 < b then PlusInfinity else MinusInfinity)"
| "dbl_times MinusInfinity (Finite b) =
     (if b = 0 then NaN else if 0 < b then MinusInfinity else PlusInfinity)"

fun dbl_divide :: "dbl \<Rightarrow> dbl \<Rightarrow> dbl" where
  "dbl_divide NaN y = NaN"
| "dbl_divide x NaN = NaN"
| "dbl_divide (Finite a) (Finite b) =
     (if b \<noteq> 0 then Finite (a / b)
      else if a = 0 then NaN else if 0 < a then PlusInfinity else MinusInfinity)"
| "dbl_divide (Finite a) y = Finite 0"
| "dbl_divide PlusInfinity (Finite b) = (if 0 \<le> b then PlusInfinity else MinusInfinity)"
| "dbl_divide MinusInfinity (Finite b) = (if 0 \<le> b then MinusInfinity else PlusInfinity)"
| "dbl_divide x y = NaN"

fun dbl_less :: "dbl \<Rightarrow> dbl \<Rightarrow> bool" where
  "dbl_less NaN y = False"
| "dbl_less x NaN = False"
| "dbl_less (Finite a) (Finite b) = (a < b)"
| "dbl_less x MinusInfinity = False"
| "dbl_less PlusInfinity y = False"
| "dbl_less MinusInfinity y = True"
| "dbl_less (Finite a) PlusInfinity = True"

instantiation dbl :: "{zero,one,plus,times,inverse,ord}"
begin

definition zero_dbl :: dbl where
  "zero_dbl = Finite 0"

definition one_dbl :: dbl where
  "one_dbl = Finite 1"

definition plus_dbl :: "dbl \<Rightarrow> dbl \<Rightarrow> dbl" where
  "plus_dbl = dbl_plus"

definition times_dbl :: "dbl \<Rightarrow> dbl \<Rightarrow> dbl" where
  "times_dbl = dbl_times"

definition divide_dbl :: "dbl \<Rightarrow> dbl \<Rightarrow> dbl" where
  "divide_dbl = dbl_divide"

definition inverse_dbl :: "dbl \<Rightarrow> dbl" where
  "inverse_dbl x = dbl_divide (Finite 1) x"

definition less_dbl :: "dbl \<Rightarrow> dbl \<Rightarrow> bool" where
  "less_dbl = dbl_less"

definition less_eq_dbl :: "dbl \<Rightarrow> dbl \<Rightarrow> bool" where
  "less_eq_dbl x y = (dbl_less x y \<or> (x = y \<and> x \<noteq> NaN))"

instance ..

end

section \<open>Properties of the matrix operations\<close>

lemma coeff_mk_matrix: "i < r \<Longrightarrow> j < c \<Longrightarrow> coeff (mk_matrix r c f) i j = f i j"
  by (simp add: coeff_def mk_matrix_def)

lemma nrows_mk [simp]: "nrows (mk_matrix r c f) = r" by (simp add: mk_matrix_def)
lemma ncols_mk [simp]: "ncols (mk_matrix r c f) = c" by (simp add: mk_matrix_def)
lemma wf_mk [simp]: "wf_matrix (mk_matrix r c f)"
  by (simp add: wf_matrix_def mk_matrix_def list_all_iff)

lemma mk_matrix_cong:
  "(\<And>i j. i < r \<Longrightarrow> j < c \<Longrightarrow> f i j = g i j) \<Longrightarrow> mk_matrix r c f = mk_matrix r c g"
  by (simp add: mk_matrix_def)

lemma mk_matrix_coeff: "wf_matrix M \<Longrightarrow> mk_matrix (nrows M) (ncols M) (coeff M) = M"
proof -
  assume wf: "wf_matrix M"
  have "map (\<lambda>i. map (\<lambda>j. coeffs M ! i ! j) [0..<ncols M]) [0..<nrows M] = coeffs M"
  proof (rule nth_equalityI)
    show "length (map (\<lambda>i. map (\<lambda>j. coeffs M ! i ! j) [0..<ncols M]) [0..<nrows M]) = length (coeffs M)"
      using wf by (simp add: wf_matrix_def)
  next
    fix i assume "i < length (map (\<lambda>i. map (\<lambda>j. coeffs M ! i ! j) [0..<ncols M]) [0..<nrows M])"
    then have i: "i < nrows M" by simp
    then have "length (coeffs M ! i) = ncols M"
      using wf by (simp add: wf_matrix_def list_all_length)
    then have "map (\<lambda>j. coeffs M ! i ! j) [0..<ncols M] = coeffs M ! i"
      by (metis map_nth)
    then show "map (\<lambda>i. map (\<lambda>j. coeffs M ! i ! j) [0..<ncols M]) [0..<nrows M] ! i = coeffs M ! i"
      using i by simp
  qed
  then show ?thesis by (simp add: mk_matrix_def coeff_def)
qed

lemma weightColumns_closed:
  "length w = nrows H \<Longrightarrow> nrows W = nrows H \<Longrightarrow> ncols W = ncols H \<Longrightarrow> wf_matrix W \<Longrightarrow>
   set js \<subseteq> {..<ncols H} \<Longrightarrow>
   weightColumns H w js W =
     Inr (mk_matrix (nrows H) (ncols H)
            (\<lambda>r j. if j \<in> set js then coeff H r j * w ! r else coeff W r j))"
proof (induction js arbitrary: W)
  case Nil
  then show ?case using mk_matrix_coeff [of W] by simp
next
  case (Cons i js)
  let ?W' = "mk_matrix (nrows W) (ncols W)
               (\<lambda>r j. if j = i then map2 (*) (map (\<lambda>r. coeff H r i) [0..<nrows H]) w ! r else coeff W r j)"
  have i: "i < ncols H" using Cons.prems by simp
  have step: "weightColumns H w (i # js) W = weightColumns H w js ?W'"
    using Cons.prems i by (simp add: block_column_def cwiseProduct_def set_block_column_def)
  have "weightColumns H w js ?W' =
     Inr (mk_matrix (nrows H) (ncols H)
            (\<lambda>r j. if j \<in> set js then coeff H r j * w ! r else coeff ?W' r j))"
    using Cons.prems by (intro Cons.IH) simp_all
  also have "mk_matrix (nrows H) (ncols H)
            (\<lambda>r j. if j \<in> set js then coeff H r j * w ! r else coeff ?W' r j) =
     mk_matrix (nrows H) (ncols H)
            (\<lambda>r j. if j \<in> set (i # js) then coeff H r j * w ! r else coeff W r j)"
    using Cons.prems by (intro mk_matrix_cong) (auto simp: coeff_mk_matrix)
  finally show ?case using step by simp
qed


lemma multiply_ok:
  fixes H :: "'a::{zero,times} matrix"
  assumes "length w = nrows H"
  shows "multiplyInformationMatrixByDiagonalWeightMatrix H w = Inr (scale_rows H w)"
proof -
  have "weightColumns H w [0..<ncols H] (Zero (nrows H) (ncols H)) =
     Inr (mk_matrix (nrows H) (ncols H)
            (\<lambda>r j. if j \<in> set [0..<ncols H] then coeff H r j * w ! r
                    else coeff (Zero (nrows H) (ncols H) :: 'a matrix) r j))"
    using assms by (intro weightColumns_closed) (auto simp: Zero_def)
  also have "mk_matrix (nrows H) (ncols H)
            (\<lambda>r j. if j \<in> set [0..<ncols H] then coeff H r j * w ! r
                    else coeff (Zero (nrows H) (ncols H) :: 'a matrix) r j) = scale_rows H w"
    unfolding scale_rows_def by (intro mk_matrix_cong) simp
  finally show ?thesis
    by (simp add: multiplyInformationMatrixByDiagonalWeightMatrix_def)
qed

lemma multiply_no_columns:
  "ncols H = 0 \<Longrightarrow> multiplyInformationMatrixByDiagonalWeightMatrix H w = Inr (Zero (nrows H) 0)"
  by (simp add: multiplyInformationMatrixByDiagonalWeightMatrix_def)

lemma multiply_mismatch:
  "0 < ncols H \<Longrightarrow> length w \<noteq> nrows H \<Longrightarrow>
   multiplyInformationMatrixByDiagonalWeightMatrix H w = Inl EigenAssertion"
  by (simp add: multiplyInformationMatrixByDiagonalWeightMatrix_def upt_conv_Cons
      block_column_def cwiseProduct_def)

lemma foldl_plus_sum_list:
  fixes a :: "'a::comm_monoid_add"
  shows "foldl (+) a xs = a + sum_list xs"
  by (induction xs arbitrary: a) (simp_all add: add.assoc)

lemma sum_of_sum_list:
  fixes xs :: "'a::comm_monoid_add list"
  shows "sum_of xs = sum_list xs"
  by (simp add: sum_of_def foldl_plus_sum_list)

lemma sum_of_delta:
  fixes a :: "nat \<Rightarrow> 'a::comm_monoid_add"
  assumes "i < n"
  shows "sum_of (map (\<lambda>k. if i = k then a k else 0) [0..<n]) = a i"
  using assms by (simp add: sum_of_sum_list interv_sum_list_conv_sum_set_nat)

lemma sum_of_delta':
  fixes a :: "nat \<Rightarrow> 'a::comm_monoid_add"
  assumes "i < n"
  shows "sum_of (map (\<lambda>k. if k = i then a k else 0) [0..<n]) = a i"
  using assms by (simp add: sum_of_sum_list interv_sum_list_conv_sum_set_nat)

lemma sum_of_cong:
  "(\<And>k. k < n \<Longrightarrow> f k = g k) \<Longrightarrow> sum_of (map f [0..<n]) = sum_of (map g [0..<n])"
  by (rule arg_cong [where f = sum_of]) simp

lemma mmul_diag:
  fixes H :: "'a::comm_semiring_0 matrix"
  assumes "length w = nrows H"
  shows "mmul (diag w) H = scale_rows H w"
proof -
  have "sum_of (map (\<lambda>k. coeff (diag w) i k * coeff H k j) [0..<ncols (diag w)]) = coeff H i j * w ! i"
    if "i < nrows H" for i j
  proof -
    have "sum_of (map (\<lambda>k. coeff (diag w) i k * coeff H k j) [0..<length w]) =
          sum_of (map (\<lambda>k. if i = k then w ! i * coeff H k j else 0) [0..<length w])"
      using that assms by (intro sum_of_cong) (simp add: diag_def coeff_mk_matrix)
    also have "\<dots> = w ! i * coeff H i j"
      using that assms by (simp add: sum_of_delta)
    finally show ?thesis by (simp add: diag_def mult.commute)
  qed
  then show ?thesis
    unfolding mmul_def scale_rows_def using assms
    by (simp add: diag_def) (rule mk_matrix_cong, simp add: diag_def)
qed

lemma fillPowers_closed:
  "i < nrows M \<Longrightarrow> wf_matrix M \<Longrightarrow> set js \<subseteq> {..<ncols M} \<Longrightarrow>
   fillPowers pow x ps i js M =
     Inr (mk_matrix (nrows M) (ncols M)
            (\<lambda>r c. if r = i \<and> c \<in> set js then pow (x ! i) (ps ! c) else coeff M r c))"
proof (induction js arbitrary: M)
  case Nil
  then show ?case using mk_matrix_coeff [of M] by simp
next
  case (Cons j js)
  let ?M' = "mk_matrix (nrows M) (ncols M)
               (\<lambda>r c. if r = i \<and> c = j then pow (x ! i) (ps ! j) else coeff M r c)"
  have step: "fillPowers pow x ps i (j # js) M = fillPowers pow x ps i js ?M'"
    using Cons.prems by (simp add: set_coeff_def)
  have "fillPowers pow x ps i js ?M' =
     Inr (mk_matrix (nrows ?M') (ncols ?M')
            (\<lambda>r c. if r = i \<and> c \<in> set js then pow (x ! i) (ps ! c) else coeff ?M' r c))"
    using Cons.prems by (intro Cons.IH) simp_all
  also have "mk_matrix (nrows ?M') (ncols ?M')
            (\<lambda>r c. if r = i \<and> c \<in> set js then pow (x ! i) (ps ! c) else coeff ?M' r c) =
     mk_matrix (nrows M) (ncols M)
            (\<lambda>r c. if r = i \<and> c \<in> set (j # js) then pow (x ! i) (ps ! c) else coeff M r c)"
    by (simp, intro mk_matrix_cong) (auto simp: coeff_mk_matrix)
  finally show ?case using step by simp
qed

lemma fillSamples_closed:
  "wf_matrix M \<Longrightarrow> ncols M = length ps \<Longrightarrow> set is \<subseteq> {..<nrows M} \<Longrightarrow>
   fillSamples pow x ps is M =
     Inr (mk_matrix (nrows M) (ncols M)
            (\<lambda>r c. if r \<in> set is then pow (x ! r) (ps ! c) else coeff M r c))"
proof (induction "is" arbitrary: M)
  case Nil
  then show ?case using mk_matrix_coeff [of M] by simp
next
  case (Cons i "is")
  let ?M' = "mk_matrix (nrows M) (ncols M)
            (\<lambda>r c. if r = i \<and> c \<in> set [0..<length ps] then pow (x ! i) (ps ! c) else coeff M r c)"
  have inner: "fillPowers pow x ps i [0..<length ps] M = Inr ?M'"
    using Cons.prems by (intro fillPowers_closed) auto
  have "fillSamples pow x ps is ?M' =
     Inr (mk_matrix (nrows ?M') (ncols ?M')
            (\<lambda>r c. if r \<in> set is then pow (x ! r) (ps ! c) else coeff ?M' r c))"
    using Cons.prems by (intro Cons.IH) simp_all
  also have "mk_matrix (nrows ?M') (ncols ?M')
            (\<lambda>r c. if r \<in> set is then pow (x ! r) (ps ! c) else coeff ?M' r c) =
     mk_matrix (nrows M) (ncols M)
            (\<lambda>r c. if r \<in> set (i # is) then pow (x ! r) (ps ! c) else coeff M r c)"
    using Cons.prems by (simp, intro mk_matrix_cong) (auto simp: coeff_mk_matrix)
  finally show ?case using inner by simp
qed

lemma partialMatrix_closed:
  fixes x :: "'a::zero vector"
  assumes "length x \<le> n"
  shows "fillSamples pow x ps [0..<length x] (Zero n (length ps)) =
     Inr (mk_matrix n (length ps) (\<lambda>i j. if i < length x then pow (x ! i) (ps ! j) else 0))"
proof -
  have "fillSamples pow x ps [0..<length x] (Zero n (length ps)) =
     Inr (mk_matrix (nrows (Zero n (length ps) :: 'a matrix)) (ncols (Zero n (length ps) :: 'a matrix))
            (\<lambda>r c. if r \<in> set [0..<length x] then pow (x ! r) (ps ! c)
                    else coeff (Zero n (length ps) :: 'a matrix) r c))"
    using assms by (intro fillSamples_closed) (auto simp: Zero_def)
  also have "mk_matrix (nrows (Zero n (length ps) :: 'a matrix)) (ncols (Zero n (length ps) :: 'a matrix))
            (\<lambda>r c. if r \<in> set [0..<length x] then pow (x ! r) (ps ! c)
                    else coeff (Zero n (length ps) :: 'a matrix) r c) =
      mk_matrix n (length ps) (\<lambda>i j. if i < length x then pow (x ! i) (ps ! j) else 0)"
    by (simp add: Zero_def, intro mk_matrix_cong) (auto simp: coeff_mk_matrix Zero_def)
  finally show ?thesis .
qed


lemma calc_closed:
  fixes H :: "'a::{zero,plus,times} matrix"
  assumes "length w = nrows H" "nrows P = ncols H" "ncols P = ncols H"
  shows "calculateInverseOfUpdatedCovarianceMatrix H w P =
           Inr (madd P (mmul (mat_transpose H) (scale_rows H w)))"
  using assms
  by (simp add: calculateInverseOfUpdatedCovarianceMatrix_def multiply_ok mat_mul_def mat_add_def
      mat_transpose_def scale_rows_def mmul_def)

lemma madd_Zero:
  fixes N :: "'a::{zero,plus} matrix"
  assumes "\<And>a :: 'a. 0 + a = a" "wf_matrix N" "nrows N = r" "ncols N = c"
  shows "madd (Zero r c) N = N"
proof -
  have "madd (Zero r c) N = mk_matrix (nrows N) (ncols N) (coeff N)"
    unfolding madd_def using assms
    by (simp add: Zero_def, intro mk_matrix_cong) (simp add: coeff_mk_matrix)
  then show ?thesis using assms mk_matrix_coeff [of N] by simp
qed

lemma wf_mmul [simp]: "wf_matrix (mmul A B)" by (simp add: mmul_def)
lemma nrows_mmul [simp]: "nrows (mmul A B) = nrows A" by (simp add: mmul_def)
lemma ncols_mmul [simp]: "ncols (mmul A B) = ncols B" by (simp add: mmul_def)
lemma wf_madd [simp]: "wf_matrix (madd A B)" by (simp add: madd_def)
lemma nrows_madd [simp]: "nrows (madd A B) = nrows A" by (simp add: madd_def)
lemma ncols_madd [simp]: "ncols (madd A B) = ncols A" by (simp add: madd_def)
lemma nrows_transpose [simp]: "nrows (mat_transpose A) = ncols A" by (simp add: mat_transpose_def)
lemma ncols_transpose [simp]: "ncols (mat_transpose A) = nrows A" by (simp add: mat_transpose_def)
lemma nrows_scale_rows [simp]: "nrows (scale_rows H w) = nrows H" by (simp add: scale_rows_def)
lemma ncols_scale_rows [simp]: "ncols (scale_rows H w) = ncols H" by (simp add: scale_rows_def)
lemma nrows_Zero [simp]: "nrows (Zero r c) = r" by (simp add: Zero_def)
lemma ncols_Zero [simp]: "ncols (Zero r c) = c" by (simp add: Zero_def)
lemma nrows_diag [simp]: "nrows (diag w) = length w" by (simp add: diag_def)
lemma ncols_diag [simp]: "ncols (diag w) = length w" by (simp add: diag_def)

lemma calc_noPrior_closed:
  fixes H :: "'a::{zero,plus,times} matrix"
  assumes "\<And>a :: 'a. 0 + a = a" "length w = nrows H"
  shows "calculateInverseOfUpdatedCovarianceMatrix_noPrior H w =
           Inr (mmul (mat_transpose H) (scale_rows H w))"
  using assms
  by (simp add: calculateInverseOfUpdatedCovarianceMatrix_noPrior_def calc_closed madd_Zero)

lemma normal_matrix_formula:
  fixes H :: "'a::comm_semiring_0 matrix"
  assumes "length w = nrows H"
  shows "mmul (mmul (mat_transpose H) (diag w)) H = mmul (mat_transpose H) (scale_rows H w)"
proof -
  have left: "coeff (mmul (mat_transpose H) (diag w)) i k = coeff H k i * w ! k"
    if "i < ncols H" "k < nrows H" for i k
  proof -
    have "coeff (mmul (mat_transpose H) (diag w)) i k =
          sum_of (map (\<lambda>l. coeff (mat_transpose H) i l * coeff (diag w) l k) [0..<nrows H])"
      using that assms by (simp add: mmul_def coeff_mk_matrix)
    also have "\<dots> = sum_of (map (\<lambda>l. if l = k then coeff H l i * w ! l else 0) [0..<nrows H])"
      using that assms
      by (intro sum_of_cong) (simp add: mat_transpose_def diag_def coeff_mk_matrix)
    also have "\<dots> = coeff H k i * w ! k"
      using that by (simp add: sum_of_delta')
    finally show ?thesis .
  qed
  have "sum_of (map (\<lambda>k. coeff (mmul (mat_transpose H) (diag w)) i k * coeff H k j) [0..<nrows H]) =
        sum_of (map (\<lambda>k. coeff (mat_transpose H) i k * coeff (scale_rows H w) k j) [0..<nrows H])"
    if "i < ncols H" "j < ncols H" for i j
  proof (intro sum_of_cong)
    fix k assume k: "k < nrows H"
    have "coeff (mat_transpose H) i k * coeff (scale_rows H w) k j = coeff H k i * (coeff H k j * w ! k)"
      using that k by (simp add: mat_transpose_def scale_rows_def coeff_mk_matrix)
    then show "coeff (mmul (mat_transpose H) (diag w)) i k * coeff H k j =
               coeff (mat_transpose H) i k * coeff (scale_rows H w) k j"
      using that k by (simp add: left mult_ac)
  qed
  then show ?thesis
    using assms by (simp add: mmul_def [of "mmul _ _"] mmul_def [of _ "scale_rows _ _"])
      (rule mk_matrix_cong, simp)
qed


section \<open>Properties of the solver and of the adjustment\<close>

lemma solve_unchecked:
  "nrows A = length b \<Longrightarrow>
   solveSystemOfEquationsWithSvd jacobiSvd A b False maxCondition =
     ([], Inr (solve (jacobiSvd ComputeThinU_ComputeThinV A) b))"
  by (simp add: solveSystemOfEquationsWithSvd_def)

lemma solve_checked:
  "nrows A = length b \<Longrightarrow>
   getConditionNumberOfDecomposedMatrix (jacobiSvd ComputeThinU_ComputeThinV A) = Inr c \<Longrightarrow>
   solveSystemOfEquationsWithSvd jacobiSvd A b True maxCondition =
     (if c > maxCondition then [ConditionNumberWarning c] else [],
      Inr (solve (jacobiSvd ComputeThinU_ComputeThinV A) b))"
  by (simp add: solveSystemOfEquationsWithSvd_def)

lemma solve_checked_empty:
  "singularValues (jacobiSvd ComputeThinU_ComputeThinV A) = [] \<Longrightarrow>
   solveSystemOfEquationsWithSvd jacobiSvd A b True maxCondition = ([], Inl EigenAssertion)"
  by (simp add: solveSystemOfEquationsWithSvd_def getConditionNumberOfDecomposedMatrix_def)

lemma condition_number_defined:
  "singularValues d \<noteq> [] \<Longrightarrow> \<exists>c. getConditionNumberOfDecomposedMatrix d = Inr c"
  by (simp add: getConditionNumberOfDecomposedMatrix_def Let_def)

lemma solve_result:
  assumes "nrows A = length b"
    and "\<not> check \<or> singularValues (jacobiSvd ComputeThinU_ComputeThinV A) \<noteq> []"
  shows "snd (solveSystemOfEquationsWithSvd jacobiSvd A b check maxCondition) =
           Inr (solve (jacobiSvd ComputeThinU_ComputeThinV A) b)"
proof (cases check)
  case False
  then show ?thesis using assms by (simp add: solve_unchecked)
next
  case True
  then obtain c where "getConditionNumberOfDecomposedMatrix (jacobiSvd ComputeThinU_ComputeThinV A) = Inr c"
    using assms condition_number_defined by blast
  then show ?thesis using True assms by (simp add: solve_checked)
qed

lemma length_mvmul [simp]: "length (mvmul A v) = nrows A"
  by (simp add: mvmul_def)

lemma perform_closed:
  fixes H :: "'a::{zero,plus,times,inverse,ord} matrix"
  assumes "length r = nrows H" "length w = nrows H" "nrows P = ncols H" "ncols P = ncols H"
  shows "performLeastSquaresAdjustmentFromInformationMatrix jacobiSvd H r w P v check maxCondition =
    (case solveSystemOfEquationsWithSvd jacobiSvd
            (madd P (mmul (mat_transpose H) (scale_rows H w)))
            (mvmul (mat_transpose H) (map2 (*) w r)) check maxCondition of
       (written, solution) \<Rightarrow>
         (written, on_success solution
                     (\<lambda>x. Inr (x, madd P (mmul (mat_transpose H) (scale_rows H w))))))"
  using assms
  by (simp add: performLeastSquaresAdjustmentFromInformationMatrix_def calc_closed
      cwiseProduct_def on_success_def mat_vec_mul_def)

lemma normal_matrix_code:
  fixes H :: "'a::comm_semiring_0 matrix"
  assumes "length w = nrows H"
  shows "normal_matrix P H w = madd P (mmul (mat_transpose H) (scale_rows H w))"
  using assms by (simp add: normal_matrix_def normal_matrix_formula)

lemma consider_closed:
  fixes H :: "'a::{zero,plus,times} matrix"
  assumes "length w = nrows H" "nrows P = ncols H" "ncols P = ncols H"
    and "nrows Hc = nrows H" "nrows Pc = ncols Hc" "ncols Pc = ncols Hc"
    and "nrows (inverse_of (madd P (mmul (mat_transpose H) (scale_rows H w)))) = ncols H"
    and "ncols (inverse_of (madd P (mmul (mat_transpose H) (scale_rows H w)))) = ncols H"
  shows "calculateCovarianceMatrixWithConsiderParameters inverse_of H w P Hc Pc =
    (let Pnoise = inverse_of (madd P (mmul (mat_transpose H) (scale_rows H w)));
         S = mmul Pnoise (mat_transpose (scale_rows H w))
     in Inr (madd Pnoise
               (mmul (mmul (mmul S Hc) Pc) (mmul (mat_transpose Hc) (mat_transpose S)))))"
  using assms
  by (simp add: calculateCovarianceMatrixWithConsiderParameters_def calc_closed multiply_ok
      on_success_def mat_inverse_def mat_mul_def mat_add_def Let_def)

lemma partialMatrix_equal_length:
  fixes x :: "'a::zero vector"
  assumes "length x = length y"
  shows "fillSamples pow x ps [0..<length x] (Zero (length y) (length ps)) =
           Inr (power_matrix pow x ps)"
proof -
  have "mk_matrix (length y) (length ps) (\<lambda>i j. if i < length x then pow (x ! i) (ps ! j) else 0)
          = power_matrix pow x ps"
    unfolding power_matrix_def using assms by (simp, intro mk_matrix_cong) simp
  then show ?thesis
    using assms partialMatrix_closed [of x "length y" pow ps] by simp
qed

lemma polynomial_fit_short_samples:
  fixes x :: "'a::{zero,one,plus,times,inverse,ord} vector"
  assumes "length x < length y"
  shows "getLeastSquaresPolynomialFit jacobiSvd pow check maxCondition x y ps =
    (case performLeastSquaresAdjustmentFromInformationMatrix_noWeights jacobiSvd
            (mk_matrix (length y) (length ps)
               (\<lambda>i j. if i < length x then pow (x ! i) (ps ! j) else 0))
            y check maxCondition of
       (written, adjustment) \<Rightarrow>
         (PolynomialFitSizeError # written, on_success adjustment (\<lambda>pair. Inr (fst pair))))"
proof -
  have shorter: "length x \<le> length y"
    using assms by simp
  show ?thesis
    unfolding getLeastSquaresPolynomialFit_def partialMatrix_closed [OF shorter]
    using assms by (simp split: prod.splits)
qed

section \<open>The claims\<close>

subsection \<open>The a-priori adjustment estimate\<close>

text \<open>
  Claim C10. For fixed information matrix, residuals, weights, a-priori inverse covariance
  and condition-number arguments, the full overload of
  \<^verbatim>\<open>performLeastSquaresAdjustmentFromInformationMatrix\<close> returns the same messages and the
  same result for any two values of \<^verbatim>\<open>aPrioriAdjustmentEstimate\<close>: the argument is accepted
  and never read. The statement holds for every scalar type and every decomposition
  routine.
\<close>

theorem aPrioriAdjustmentEstimate_without_influence:
  "performLeastSquaresAdjustmentFromInformationMatrix jacobiSvd H r w P0inv v1 check maxCondition =
   performLeastSquaresAdjustmentFromInformationMatrix jacobiSvd H r w P0inv v2 check maxCondition"
  by (simp add: performLeastSquaresAdjustmentFromInformationMatrix_def)

subsection \<open>The overloads\<close>

text \<open>
  Claim C6. The overload without a-priori information returns what the full overload
  returns for the zero matrix of size \<open>cols(H) \<times> cols(H)\<close> (with any a-priori adjustment
  estimate \<open>v\<close>), and the overload without weights returns what the weighted overload
  returns for the vector of \<open>length r\<close> ones; so the overload without weights is the full
  overload with both defaults. The equalities are between the whole outcomes (messages
  and result or failure), for every scalar type.
\<close>

theorem overloads_substitute_defaults:
  "performLeastSquaresAdjustmentFromInformationMatrix_noPrior jacobiSvd H r w check maxCondition =
     performLeastSquaresAdjustmentFromInformationMatrix jacobiSvd H r w
       (Zero (ncols H) (ncols H)) v check maxCondition
   \<and> performLeastSquaresAdjustmentFromInformationMatrix_noWeights jacobiSvd H r check maxCondition =
     performLeastSquaresAdjustmentFromInformationMatrix_noPrior jacobiSvd H r
       (replicate (length r) 1) check maxCondition
   \<and> performLeastSquaresAdjustmentFromInformationMatrix_noWeights jacobiSvd H r check maxCondition =
     performLeastSquaresAdjustmentFromInformationMatrix jacobiSvd H r
       (replicate (length r) 1) (Zero (ncols H) (ncols H)) v check maxCondition"
  by (simp add: performLeastSquaresAdjustmentFromInformationMatrix_noWeights_def
      performLeastSquaresAdjustmentFromInformationMatrix_noPrior_def
      performLeastSquaresAdjustmentFromInformationMatrix_def Constant_def)

subsection \<open>Weighting the information matrix\<close>

text \<open>
  Claim C3, as stated, fails: \<^verbatim>\<open>multiplyInformationMatrixByDiagonalWeightMatrix\<close> compares
  no sizes itself. The only size check is the library's, inside the loop over the
  columns, so an information matrix without columns is returned (as the empty zero matrix)
  for a weight vector of any length. Here the matrix has 2 rows and 0 columns and the
  weight vector 3 coefficients.
\<close>

theorem weighting_accepts_mismatch_without_columns:
  "length [1, 2, 3 :: real] \<noteq> nrows \<lparr>nrows = 2, ncols = 0, coeffs = [[], []] :: real list list\<rparr>
   \<and> multiplyInformationMatrixByDiagonalWeightMatrix
        \<lparr>nrows = 2, ncols = 0, coeffs = [[], []]\<rparr> [1, 2, 3 :: real]
      = Inr \<lparr>nrows = 2, ncols = 0, coeffs = [[], []]\<rparr>"
  by code_simp

text \<open>
  Claim C3, amended. For \<open>length w = rows(H)\<close> the function returns \<open>H\<close> with each row \<open>i\<close>
  scaled by \<open>w[i]\<close>. It has no size check of its own: for an \<open>H\<close> without columns it
  returns the \<open>rows(H) \<times> 0\<close> matrix whatever the length of \<open>w\<close>; for an \<open>H\<close> with a column
  and \<open>length w \<noteq> rows(H)\<close> it does not return, the library's size assertion on the
  coefficient-wise product of the first column stops it.
\<close>

theorem weighting_checks_no_size:
  fixes H :: "'a::{zero,times} matrix"
  shows "(length w = nrows H \<longrightarrow>
            multiplyInformationMatrixByDiagonalWeightMatrix H w = Inr (scale_rows H w))
       \<and> (ncols H = 0 \<longrightarrow>
            multiplyInformationMatrixByDiagonalWeightMatrix H w = Inr (Zero (nrows H) 0))
       \<and> (0 < ncols H \<and> length w \<noteq> nrows H \<longrightarrow>
            multiplyInformationMatrixByDiagonalWeightMatrix H w = Inl EigenAssertion)"
  by (simp add: multiply_ok multiply_no_columns multiply_mismatch)

theorem weighting_checks_no_size_witness:
  "length [10, 100 :: real] = nrows \<lparr>nrows = 2, ncols = 2, coeffs = [[1, 2], [3, 4 :: real]]\<rparr>
   \<and> multiplyInformationMatrixByDiagonalWeightMatrix
        \<lparr>nrows = 2, ncols = 2, coeffs = [[1, 2], [3, 4]]\<rparr> [10, 100 :: real]
      = Inr \<lparr>nrows = 2, ncols = 2, coeffs = [[10, 20], [300, 400]]\<rparr>
   \<and> ncols \<lparr>nrows = 3, ncols = 0, coeffs = [[], [], []] :: real list list\<rparr> = 0
   \<and> multiplyInformationMatrixByDiagonalWeightMatrix
        \<lparr>nrows = 3, ncols = 0, coeffs = [[], [], []]\<rparr> [7 :: real]
      = Inr (Zero 3 0)
   \<and> 0 < ncols \<lparr>nrows = 2, ncols = 1, coeffs = [[1], [2 :: real]]\<rparr>
   \<and> length [1, 2, 3 :: real] \<noteq> nrows \<lparr>nrows = 2, ncols = 1, coeffs = [[1], [2 :: real]]\<rparr>
   \<and> multiplyInformationMatrixByDiagonalWeightMatrix
        \<lparr>nrows = 2, ncols = 1, coeffs = [[1], [2]]\<rparr> [1, 2, 3 :: real]
      = Inl EigenAssertion"
proof -
  have scaled: "scale_rows \<lparr>nrows = 2, ncols = 2, coeffs = [[1, 2], [3, 4 :: real]]\<rparr> [10, 100]
      = \<lparr>nrows = 2, ncols = 2, coeffs = [[10, 20], [300, 400]]\<rparr>"
    by code_simp
  show ?thesis
    using weighting_checks_no_size
            [of "[10, 100 :: real]" "\<lparr>nrows = 2, ncols = 2, coeffs = [[1, 2], [3, 4]]\<rparr>"]
          weighting_checks_no_size
            [of "[7 :: real]" "\<lparr>nrows = 3, ncols = 0, coeffs = [[], [], []]\<rparr>"]
          weighting_checks_no_size
            [of "[1, 2, 3 :: real]" "\<lparr>nrows = 2, ncols = 1, coeffs = [[1], [2]]\<rparr>"]
    by (simp add: scaled)
qed

subsection \<open>A-priori information\<close>

text \<open>
  Claim C7. For an information matrix \<open>H\<close>, weights \<open>w\<close> with \<open>length w = rows(H)\<close> and an
  a-priori inverse covariance \<open>P0inv\<close> of size \<open>cols(H) \<times> cols(H)\<close>, the overload of
  \<^verbatim>\<open>calculateInverseOfUpdatedCovarianceMatrix\<close> without a-priori information returns a
  matrix \<open>N0\<close>, and the overload with \<open>P0inv\<close> returns the sum \<open>P0inv + N0\<close>. The one
  property of the scalars that is used is \<open>0 + a = a\<close>: the overload without a-priori
  information adds the zero matrix.
\<close>

theorem prior_information_is_additive:
  fixes H :: "'a::{zero,plus,times} matrix"
  assumes "length w = nrows H" "nrows P0inv = ncols H" "ncols P0inv = ncols H"
    and "\<And>a :: 'a. 0 + a = a"
  shows "\<exists>N0. calculateInverseOfUpdatedCovarianceMatrix_noPrior H w = Inr N0
            \<and> calculateInverseOfUpdatedCovarianceMatrix H w P0inv = mat_add P0inv N0
            \<and> mat_add P0inv N0 = Inr (madd P0inv N0)"
  using assms by (simp add: calc_noPrior_closed calc_closed mat_add_def)

theorem prior_information_is_additive_witness:
  "length [1, 2, 3 :: real] = nrows \<lparr>nrows = 3, ncols = 2, coeffs = [[1, -1], [1, 0], [1, 1 :: real]]\<rparr>
   \<and> nrows \<lparr>nrows = 2, ncols = 2, coeffs = [[1, 0], [0, 2 :: real]]\<rparr>
       = ncols \<lparr>nrows = 3, ncols = 2, coeffs = [[1, -1], [1, 0], [1, 1 :: real]]\<rparr>
   \<and> ncols \<lparr>nrows = 2, ncols = 2, coeffs = [[1, 0], [0, 2 :: real]]\<rparr>
       = ncols \<lparr>nrows = 3, ncols = 2, coeffs = [[1, -1], [1, 0], [1, 1 :: real]]\<rparr>
   \<and> calculateInverseOfUpdatedCovarianceMatrix_noPrior
         \<lparr>nrows = 3, ncols = 2, coeffs = [[1, -1], [1, 0], [1, 1]]\<rparr> [1, 2, 3 :: real]
       = Inr \<lparr>nrows = 2, ncols = 2, coeffs = [[6, 2], [2, 4]]\<rparr>
   \<and> calculateInverseOfUpdatedCovarianceMatrix
         \<lparr>nrows = 3, ncols = 2, coeffs = [[1, -1], [1, 0], [1, 1]]\<rparr> [1, 2, 3 :: real]
         \<lparr>nrows = 2, ncols = 2, coeffs = [[1, 0], [0, 2]]\<rparr>
       = mat_add \<lparr>nrows = 2, ncols = 2, coeffs = [[1, 0], [0, 2]]\<rparr>
           \<lparr>nrows = 2, ncols = 2, coeffs = [[6, 2], [2, 4]]\<rparr>
   \<and> mat_add \<lparr>nrows = 2, ncols = 2, coeffs = [[1, 0], [0, 2 :: real]]\<rparr>
           \<lparr>nrows = 2, ncols = 2, coeffs = [[6, 2], [2, 4]]\<rparr>
       = Inr \<lparr>nrows = 2, ncols = 2, coeffs = [[7, 2], [2, 6]]\<rparr>"
proof -
  let ?H = "\<lparr>nrows = 3, ncols = 2, coeffs = [[1, -1], [1, 0], [1, 1 :: real]]\<rparr>"
  let ?P = "\<lparr>nrows = 2, ncols = 2, coeffs = [[1, 0], [0, 2 :: real]]\<rparr>"
  let ?w = "[1, 2, 3 :: real]"
  have dims: "length ?w = nrows ?H" "nrows ?P = ncols ?H" "ncols ?P = ncols ?H"
    by simp_all
  have zero_left: "\<And>a :: real. 0 + a = a"
    by simp
  have noPrior: "calculateInverseOfUpdatedCovarianceMatrix_noPrior ?H ?w
                   = Inr \<lparr>nrows = 2, ncols = 2, coeffs = [[6, 2], [2, 4]]\<rparr>"
    by code_simp
  have sum: "mat_add ?P \<lparr>nrows = 2, ncols = 2, coeffs = [[6, 2], [2, 4]]\<rparr>
               = Inr \<lparr>nrows = 2, ncols = 2, coeffs = [[7, 2], [2, 6]]\<rparr>"
    by code_simp
  from prior_information_is_additive [OF dims zero_left] noPrior
  have "calculateInverseOfUpdatedCovarianceMatrix ?H ?w ?P
          = mat_add ?P \<lparr>nrows = 2, ncols = 2, coeffs = [[6, 2], [2, 4]]\<rparr>"
    by auto
  with dims noPrior sum show ?thesis by simp
qed

subsection \<open>The condition number check\<close>

text \<open>
  Claim C4. For a matrix \<open>A\<close> and a right-hand side \<open>b\<close> with \<open>rows(A) = length b\<close>: when
  \<^verbatim>\<open>checkConditionNumber\<close> is set and the condition number \<open>c\<close> of the decomposition exceeds
  \<^verbatim>\<open>maximumAllowedConditionNumber\<close>, \<^verbatim>\<open>solveSystemOfEquationsWithSvd\<close> writes exactly one
  warning and returns the solution of the decomposition; when \<open>c\<close> does not exceed the
  bound it writes nothing and returns the same solution; when the check is off it writes
  nothing and returns the same solution. In no case does the comparison stop the
  function. The statement holds for every scalar type, whatever its division and order.
\<close>

theorem condition_number_check_is_advisory:
  fixes A :: "'a::{inverse,ord} matrix"
  assumes "nrows A = length b"
  shows "(check \<and> getConditionNumberOfDecomposedMatrix (jacobiSvd ComputeThinU_ComputeThinV A) = Inr c
            \<and> c > maxCondition \<longrightarrow>
          solveSystemOfEquationsWithSvd jacobiSvd A b check maxCondition =
            ([ConditionNumberWarning c], Inr (solve (jacobiSvd ComputeThinU_ComputeThinV A) b)))
       \<and> (check \<and> getConditionNumberOfDecomposedMatrix (jacobiSvd ComputeThinU_ComputeThinV A) = Inr c
            \<and> \<not> c > maxCondition \<longrightarrow>
          solveSystemOfEquationsWithSvd jacobiSvd A b check maxCondition =
            ([], Inr (solve (jacobiSvd ComputeThinU_ComputeThinV A) b)))
       \<and> (\<not> check \<longrightarrow>
          solveSystemOfEquationsWithSvd jacobiSvd A b check maxCondition =
            ([], Inr (solve (jacobiSvd ComputeThinU_ComputeThinV A) b)))"
  using assms by (auto simp: solve_checked solve_unchecked)


theorem condition_number_check_is_advisory_witness:
  "nrows \<lparr>nrows = 2, ncols = 2, coeffs = [[1, 0], [0, 4 :: real]]\<rparr> = length [3, 8 :: real]
   \<and> getConditionNumberOfDecomposedMatrix
         (diagonalSvd ComputeThinU_ComputeThinV \<lparr>nrows = 2, ncols = 2, coeffs = [[1, 0], [0, 4]]\<rparr>)
       = Inr 4
   \<and> (4 :: real) > 2
   \<and> solveSystemOfEquationsWithSvd diagonalSvd
         \<lparr>nrows = 2, ncols = 2, coeffs = [[1, 0], [0, 4]]\<rparr> [3, 8] True 2
       = ([ConditionNumberWarning 4], Inr [3, 2])
   \<and> \<not> (4 :: real) > 100000000
   \<and> solveSystemOfEquationsWithSvd diagonalSvd
         \<lparr>nrows = 2, ncols = 2, coeffs = [[1, 0], [0, 4]]\<rparr> [3, 8] True 100000000
       = ([], Inr [3, 2])
   \<and> solveSystemOfEquationsWithSvd diagonalSvd
         \<lparr>nrows = 2, ncols = 2, coeffs = [[1, 0], [0, 4]]\<rparr> [3, 8] False 2
       = ([], Inr [3, 2])"
proof -
  let ?A = "\<lparr>nrows = 2, ncols = 2, coeffs = [[1, 0], [0, 4 :: real]]\<rparr>"
  have dims: "nrows ?A = length [3, 8 :: real]"
    by simp
  have condition: "getConditionNumberOfDecomposedMatrix (diagonalSvd ComputeThinU_ComputeThinV ?A) = Inr 4"
    by code_simp
  have solution: "solve (diagonalSvd ComputeThinU_ComputeThinV ?A) [3, 8] = [3, 2]"
    by code_simp
  show ?thesis
    using condition_number_check_is_advisory [OF dims, of True diagonalSvd 4 2]
          condition_number_check_is_advisory [OF dims, of True diagonalSvd 4 100000000]
          condition_number_check_is_advisory [OF dims, of False diagonalSvd 4 2]
          condition solution
    by simp
qed

subsection \<open>The adjustment\<close>

text \<open>
  Claim C1, as stated, fails for an information matrix without columns when the condition
  number is checked: the inverse covariance is the \<open>0 \<times> 0\<close> matrix, its decomposition has
  no singular value, and \<^verbatim>\<open>getConditionNumberOfDecomposedMatrix\<close> reads
  \<^verbatim>\<open>singularValues( 0 )\<close>. All sizes fit (two observations, two residuals, two weights, no
  parameter), and no pair is returned.
\<close>

theorem adjustment_without_parameters_fails:
  "length [1, 3 :: real] = nrows \<lparr>nrows = 2, ncols = 0, coeffs = [[], []] :: real list list\<rparr>
   \<and> performLeastSquaresAdjustmentFromInformationMatrix diagonalSvd
         \<lparr>nrows = 2, ncols = 0, coeffs = [[], []]\<rparr> [1, 3] [1, 1]
         \<lparr>nrows = 0, ncols = 0, coeffs = []\<rparr> [] True 100000000
       = ([], Inl EigenAssertion)"
  by code_simp

text \<open>
  Claim C1, amended. For \<open>H\<close>, \<open>r\<close>, \<open>w\<close> and \<open>P0inv\<close> of compatible dimensions, when the
  condition number is not checked or the decomposition of \<open>N\<close> has a singular value,
  \<^verbatim>\<open>performLeastSquaresAdjustmentFromInformationMatrix\<close> returns the pair \<open>(dx, N)\<close> with
  \<open>N = P0inv + H\<^sup>T * diag(w) * H\<close> and \<open>dx\<close> the solution that the decomposition of \<open>N\<close>
  gives for the right-hand side \<open>H\<^sup>T * (w .* r)\<close>. The scalars have exact arithmetic.
\<close>

theorem adjustment_solves_normal_equations:
  fixes H :: "'a::{comm_semiring_0,inverse,ord} matrix"
  assumes "length r = nrows H" "length w = nrows H"
    and "nrows P0inv = ncols H" "ncols P0inv = ncols H"
    and "\<not> check \<or> singularValues (jacobiSvd ComputeThinU_ComputeThinV (normal_matrix P0inv H w)) \<noteq> []"
  shows "snd (performLeastSquaresAdjustmentFromInformationMatrix jacobiSvd H r w P0inv v
                check maxCondition) =
         Inr (solve (jacobiSvd ComputeThinU_ComputeThinV (normal_matrix P0inv H w))
                (weighted_rhs H w r),
              normal_matrix P0inv H w)"
proof -
  have N: "normal_matrix P0inv H w = madd P0inv (mmul (mat_transpose H) (scale_rows H w))"
    using assms by (simp add: normal_matrix_code)
  have "snd (solveSystemOfEquationsWithSvd jacobiSvd (normal_matrix P0inv H w)
               (weighted_rhs H w r) check maxCondition) =
        Inr (solve (jacobiSvd ComputeThinU_ComputeThinV (normal_matrix P0inv H w))
               (weighted_rhs H w r))"
    using assms by (intro solve_result) (simp_all add: N weighted_rhs_def)
  then show ?thesis
    using assms
    by (cases "solveSystemOfEquationsWithSvd jacobiSvd (normal_matrix P0inv H w)
                 (weighted_rhs H w r) check maxCondition")
       (simp add: perform_closed N [symmetric] weighted_rhs_def [symmetric] on_success_def)
qed

theorem adjustment_solves_normal_equations_witness:
  "length [1, 3, 5 :: real] = nrows \<lparr>nrows = 3, ncols = 2, coeffs = [[1, -1], [1, 0], [1, 1 :: real]]\<rparr>
   \<and> length [1, 1, 1 :: real] = nrows \<lparr>nrows = 3, ncols = 2, coeffs = [[1, -1], [1, 0], [1, 1 :: real]]\<rparr>
   \<and> normal_matrix \<lparr>nrows = 2, ncols = 2, coeffs = [[1, 0], [0, 2]]\<rparr>
         \<lparr>nrows = 3, ncols = 2, coeffs = [[1, -1], [1, 0], [1, 1]]\<rparr> [1, 1, 1 :: real]
       = \<lparr>nrows = 2, ncols = 2, coeffs = [[4, 0], [0, 4]]\<rparr>
   \<and> weighted_rhs \<lparr>nrows = 3, ncols = 2, coeffs = [[1, -1], [1, 0], [1, 1]]\<rparr> [1, 1, 1] [1, 3, 5 :: real]
       = [9, 4]
   \<and> singularValues (diagonalSvd ComputeThinU_ComputeThinV
         \<lparr>nrows = 2, ncols = 2, coeffs = [[4, 0], [0, 4]]\<rparr>) = [4, 4]
   \<and> snd (performLeastSquaresAdjustmentFromInformationMatrix diagonalSvd
         \<lparr>nrows = 3, ncols = 2, coeffs = [[1, -1], [1, 0], [1, 1]]\<rparr> [1, 3, 5] [1, 1, 1]
         \<lparr>nrows = 2, ncols = 2, coeffs = [[1, 0], [0, 2]]\<rparr> [] True 100000000)
       = Inr ([9 / 4, 1], \<lparr>nrows = 2, ncols = 2, coeffs = [[4, 0], [0, 4]]\<rparr>)"
proof -
  let ?H = "\<lparr>nrows = 3, ncols = 2, coeffs = [[1, -1], [1, 0], [1, 1 :: real]]\<rparr>"
  let ?P = "\<lparr>nrows = 2, ncols = 2, coeffs = [[1, 0], [0, 2 :: real]]\<rparr>"
  let ?N = "\<lparr>nrows = 2, ncols = 2, coeffs = [[4, 0], [0, 4 :: real]]\<rparr>"
  have dims: "length [1, 3, 5 :: real] = nrows ?H" "length [1, 1, 1 :: real] = nrows ?H"
    "nrows ?P = ncols ?H" "ncols ?P = ncols ?H"
    by simp_all
  have N: "normal_matrix ?P ?H [1, 1, 1] = ?N"
    by code_simp
  have g: "weighted_rhs ?H [1, 1, 1] [1, 3, 5] = [9, 4]"
    by code_simp
  have singular: "singularValues (diagonalSvd ComputeThinU_ComputeThinV ?N) = [4, 4]"
    by code_simp
  have solution: "solve (diagonalSvd ComputeThinU_ComputeThinV ?N) [9, 4] = [9 / 4, 1]"
    by code_simp
  have decomposed: "\<not> True \<or> singularValues (diagonalSvd ComputeThinU_ComputeThinV
                       (normal_matrix ?P ?H [1, 1, 1])) \<noteq> []"
    by (simp add: N singular)
  show ?thesis
    using adjustment_solves_normal_equations
            [where jacobiSvd = diagonalSvd and check = True and v = "[]"
               and maxCondition = 100000000, OF dims decomposed]
    by (simp add: N g singular solution)
qed

subsection \<open>The covariance with consider parameters\<close>

text \<open>
  Claim C5. For \<open>H\<close>, \<open>w\<close>, \<open>P0inv\<close>, \<open>Hc\<close> and \<open>Pc\<close> of compatible dimensions,
  \<^verbatim>\<open>calculateCovarianceMatrixWithConsiderParameters\<close> returns
  \<open>Pnoise + (S * Hc) * Pc * (Hc\<^sup>T * S\<^sup>T)\<close>, where \<open>Pnoise\<close> is the matrix the library's
  inverse returns for \<open>N = P0inv + H\<^sup>T * diag(w) * H\<close> and \<open>S = Pnoise * (diag(w) * H)\<^sup>T\<close>.
  The inverse routine is a parameter that returns a matrix of the size of its argument;
  for an invertible \<open>N\<close> the library returns its inverse, and the equation itself needs
  nothing more of it. The scalars have exact arithmetic.
\<close>

theorem consider_covariance_formula:
  fixes H :: "'a::comm_semiring_0 matrix"
  assumes "length w = nrows H" "nrows P0inv = ncols H" "ncols P0inv = ncols H"
    and "nrows Hc = nrows H" "nrows Pc = ncols Hc" "ncols Pc = ncols Hc"
    and "\<And>M. nrows (inverse_of M) = nrows M" "\<And>M. ncols (inverse_of M) = ncols M"
  shows "calculateCovarianceMatrixWithConsiderParameters inverse_of H w P0inv Hc Pc =
    (let Pnoise = inverse_of (normal_matrix P0inv H w);
         S = mmul Pnoise (mat_transpose (mmul (diag w) H))
     in Inr (madd Pnoise
               (mmul (mmul (mmul S Hc) Pc) (mmul (mat_transpose Hc) (mat_transpose S)))))"
  using assms
  by (simp add: consider_closed normal_matrix_code mmul_diag)

theorem consider_covariance_formula_witness:
  "calculateCovarianceMatrixWithConsiderParameters diagonalInverse
     \<lparr>nrows = 2, ncols = 1, coeffs = [[1], [1 :: real]]\<rparr> [1, 1]
     \<lparr>nrows = 1, ncols = 1, coeffs = [[2]]\<rparr>
     \<lparr>nrows = 2, ncols = 1, coeffs = [[1], [0]]\<rparr>
     \<lparr>nrows = 1, ncols = 1, coeffs = [[8]]\<rparr>
   = Inr \<lparr>nrows = 1, ncols = 1, coeffs = [[3 / 4]]\<rparr>
   \<and> normal_matrix \<lparr>nrows = 1, ncols = 1, coeffs = [[2]]\<rparr>
       \<lparr>nrows = 2, ncols = 1, coeffs = [[1], [1 :: real]]\<rparr> [1, 1]
     = \<lparr>nrows = 1, ncols = 1, coeffs = [[4]]\<rparr>
   \<and> diagonalInverse \<lparr>nrows = 1, ncols = 1, coeffs = [[4 :: real]]\<rparr>
     = \<lparr>nrows = 1, ncols = 1, coeffs = [[1 / 4]]\<rparr>
   \<and> mmul \<lparr>nrows = 1, ncols = 1, coeffs = [[1 / 4]]\<rparr>
       (mat_transpose (mmul (diag [1, 1]) \<lparr>nrows = 2, ncols = 1, coeffs = [[1], [1 :: real]]\<rparr>))
     = \<lparr>nrows = 1, ncols = 2, coeffs = [[1 / 4, 1 / 4]]\<rparr>"
proof -
  let ?H = "\<lparr>nrows = 2, ncols = 1, coeffs = [[1], [1 :: real]]\<rparr>"
  let ?P = "\<lparr>nrows = 1, ncols = 1, coeffs = [[2 :: real]]\<rparr>"
  let ?Hc = "\<lparr>nrows = 2, ncols = 1, coeffs = [[1], [0 :: real]]\<rparr>"
  let ?Pc = "\<lparr>nrows = 1, ncols = 1, coeffs = [[8 :: real]]\<rparr>"
  let ?S = "\<lparr>nrows = 1, ncols = 2, coeffs = [[1 / 4, 1 / 4 :: real]]\<rparr>"
  let ?Pn = "\<lparr>nrows = 1, ncols = 1, coeffs = [[1 / 4 :: real]]\<rparr>"
  have dims: "length [1, 1 :: real] = nrows ?H" "nrows ?P = ncols ?H" "ncols ?P = ncols ?H"
    "nrows ?Hc = nrows ?H" "nrows ?Pc = ncols ?Hc" "ncols ?Pc = ncols ?Hc"
    by simp_all
  have inverse_size: "\<And>M :: real matrix. nrows (diagonalInverse M) = nrows M"
    "\<And>M :: real matrix. ncols (diagonalInverse M) = ncols M"
    by (simp_all add: diagonalInverse_def)
  have N: "normal_matrix ?P ?H [1, 1] = \<lparr>nrows = 1, ncols = 1, coeffs = [[4]]\<rparr>"
    by code_simp
  have Pn: "diagonalInverse \<lparr>nrows = 1, ncols = 1, coeffs = [[4 :: real]]\<rparr> = ?Pn"
    by code_simp
  have S: "mmul ?Pn (mat_transpose (mmul (diag [1, 1]) ?H)) = ?S"
    by code_simp
  have total: "madd ?Pn (mmul (mmul (mmul ?S ?Hc) ?Pc) (mmul (mat_transpose ?Hc) (mat_transpose ?S)))
                 = \<lparr>nrows = 1, ncols = 1, coeffs = [[3 / 4]]\<rparr>"
    by code_simp
  have "calculateCovarianceMatrixWithConsiderParameters diagonalInverse ?H [1, 1] ?P ?Hc ?Pc
          = Inr \<lparr>nrows = 1, ncols = 1, coeffs = [[3 / 4]]\<rparr>"
    unfolding consider_covariance_formula
                [of "[1, 1]" ?H ?P ?Hc ?Pc diagonalInverse, OF dims inverse_size]
              Let_def N Pn S total ..
  then show ?thesis
    using N Pn S by (intro conjI)
qed

text \<open>
  Claim C2, as stated, fails: the function tests nothing before or after it inverts. Here
  the single observation does not depend on the single parameter and there is no a-priori
  information, so the inverse covariance is the \<open>1 \<times> 1\<close> zero matrix; the inverse of this
  matrix divides by zero, and the function returns the matrix whose coefficient is not a
  number.
\<close>

theorem singular_inverse_covariance_is_not_rejected:
  "calculateInverseOfUpdatedCovarianceMatrix
     \<lparr>nrows = 1, ncols = 1, coeffs = [[Finite 0]]\<rparr> [Finite 1]
     \<lparr>nrows = 1, ncols = 1, coeffs = [[Finite 0]]\<rparr>
   = Inr \<lparr>nrows = 1, ncols = 1, coeffs = [[Finite 0]]\<rparr>
   \<and> calculateCovarianceMatrixWithConsiderParameters diagonalInverse
     \<lparr>nrows = 1, ncols = 1, coeffs = [[Finite 0]]\<rparr> [Finite 1]
     \<lparr>nrows = 1, ncols = 1, coeffs = [[Finite 0]]\<rparr>
     \<lparr>nrows = 1, ncols = 1, coeffs = [[Finite 1]]\<rparr>
     \<lparr>nrows = 1, ncols = 1, coeffs = [[Finite 1]]\<rparr>
   = Inr \<lparr>nrows = 1, ncols = 1, coeffs = [[NaN]]\<rparr>"
  by code_simp

text \<open>
  Claim C2, amended. For \<open>H\<close>, \<open>w\<close>, \<open>P0inv\<close>, \<open>Hc\<close> and \<open>Pc\<close> of compatible dimensions,
  whether the inverse covariance \<open>N\<close> is invertible or not,
  \<^verbatim>\<open>calculateCovarianceMatrixWithConsiderParameters\<close> makes no invertibility check and
  reports no error: with \<open>N\<close> the matrix that \<^verbatim>\<open>calculateInverseOfUpdatedCovarianceMatrix\<close>
  returns and \<open>Pnoise\<close> the \<open>cols(H) \<times> cols(H)\<close> matrix that the library's inverse returns
  for \<open>N\<close>, whatever it is, it returns \<open>Pnoise + (S * Hc) * Pc * (Hc\<^sup>T * S\<^sup>T)\<close>, where \<open>S\<close> is
  \<open>Pnoise\<close> times the transpose of the weighted information matrix. The statement holds for
  every scalar type.
\<close>

theorem consider_covariance_checks_no_singularity:
  fixes H :: "'a::{zero,plus,times} matrix"
  assumes "length w = nrows H" "nrows P0inv = ncols H" "ncols P0inv = ncols H"
    and "nrows Hc = nrows H" "nrows Pc = ncols Hc" "ncols Pc = ncols Hc"
    and "\<And>M. nrows (inverse_of M) = nrows M" "\<And>M. ncols (inverse_of M) = ncols M"
  shows "\<exists>N. calculateInverseOfUpdatedCovarianceMatrix H w P0inv = Inr N
           \<and> calculateCovarianceMatrixWithConsiderParameters inverse_of H w P0inv Hc Pc =
               (let Pnoise = inverse_of N;
                    S = mmul Pnoise (mat_transpose (scale_rows H w))
                in Inr (madd Pnoise
                          (mmul (mmul (mmul S Hc) Pc)
                             (mmul (mat_transpose Hc) (mat_transpose S)))))
           \<and> nrows (inverse_of N) = ncols H \<and> ncols (inverse_of N) = ncols H"
  using assms by (simp add: consider_closed calc_closed Let_def)

theorem consider_covariance_checks_no_singularity_witness:
  "calculateInverseOfUpdatedCovarianceMatrix
     \<lparr>nrows = 1, ncols = 1, coeffs = [[Finite 0]]\<rparr> [Finite 1]
     \<lparr>nrows = 1, ncols = 1, coeffs = [[Finite 0]]\<rparr>
   = Inr \<lparr>nrows = 1, ncols = 1, coeffs = [[Finite 0]]\<rparr>
   \<and> diagonalInverse \<lparr>nrows = 1, ncols = 1, coeffs = [[Finite 0]]\<rparr>
     = \<lparr>nrows = 1, ncols = 1, coeffs = [[PlusInfinity]]\<rparr>
   \<and> calculateCovarianceMatrixWithConsiderParameters diagonalInverse
     \<lparr>nrows = 1, ncols = 1, coeffs = [[Finite 0]]\<rparr> [Finite 1]
     \<lparr>nrows = 1, ncols = 1, coeffs = [[Finite 0]]\<rparr>
     \<lparr>nrows = 1, ncols = 1, coeffs = [[Finite 1]]\<rparr>
     \<lparr>nrows = 1, ncols = 1, coeffs = [[Finite 1]]\<rparr>
   = (let Pnoise = \<lparr>nrows = 1, ncols = 1, coeffs = [[PlusInfinity]]\<rparr>;
          S = mmul Pnoise (mat_transpose
                (scale_rows \<lparr>nrows = 1, ncols = 1, coeffs = [[Finite 0]]\<rparr> [Finite 1]))
      in Inr (madd Pnoise
                (mmul (mmul (mmul S \<lparr>nrows = 1, ncols = 1, coeffs = [[Finite 1]]\<rparr>)
                         \<lparr>nrows = 1, ncols = 1, coeffs = [[Finite 1]]\<rparr>)
                   (mmul (mat_transpose \<lparr>nrows = 1, ncols = 1, coeffs = [[Finite 1]]\<rparr>)
                      (mat_transpose S)))))"
proof -
  let ?H = "\<lparr>nrows = 1, ncols = 1, coeffs = [[Finite 0]]\<rparr>"
  let ?P = "\<lparr>nrows = 1, ncols = 1, coeffs = [[Finite 0]]\<rparr>"
  let ?Hc = "\<lparr>nrows = 1, ncols = 1, coeffs = [[Finite 1]]\<rparr>"
  let ?Pc = "\<lparr>nrows = 1, ncols = 1, coeffs = [[Finite 1]]\<rparr>"
  have dims: "length [Finite 1] = nrows ?H" "nrows ?P = ncols ?H" "ncols ?P = ncols ?H"
    "nrows ?Hc = nrows ?H" "nrows ?Pc = ncols ?Hc" "ncols ?Pc = ncols ?Hc"
    by simp_all
  have inverse_size: "\<And>M :: dbl matrix. nrows (diagonalInverse M) = nrows M"
    "\<And>M :: dbl matrix. ncols (diagonalInverse M) = ncols M"
    by (simp_all add: diagonalInverse_def)
  have N: "calculateInverseOfUpdatedCovarianceMatrix ?H [Finite 1] ?P = Inr ?P"
    by code_simp
  have inverted: "diagonalInverse ?P = \<lparr>nrows = 1, ncols = 1, coeffs = [[PlusInfinity]]\<rparr>"
    by code_simp
  from consider_covariance_checks_no_singularity [of "[Finite 1]" ?H ?P ?Hc ?Pc diagonalInverse, OF dims inverse_size]
  obtain M where M: "calculateInverseOfUpdatedCovarianceMatrix ?H [Finite 1] ?P = Inr M"
    and result: "calculateCovarianceMatrixWithConsiderParameters diagonalInverse ?H [Finite 1] ?P ?Hc ?Pc =
               (let Pnoise = diagonalInverse M;
                    S = mmul Pnoise (mat_transpose (scale_rows ?H [Finite 1]))
                in Inr (madd Pnoise
                          (mmul (mmul (mmul S ?Hc) ?Pc)
                             (mmul (mat_transpose ?Hc) (mat_transpose S)))))"
    by blast
  from M N have "M = ?P"
    by simp
  with result inverted have "calculateCovarianceMatrixWithConsiderParameters diagonalInverse ?H [Finite 1] ?P ?Hc ?Pc =
               (let Pnoise = \<lparr>nrows = 1, ncols = 1, coeffs = [[PlusInfinity]]\<rparr>;
                    S = mmul Pnoise (mat_transpose (scale_rows ?H [Finite 1]))
                in Inr (madd Pnoise
                          (mmul (mmul (mmul S ?Hc) ?Pc)
                             (mmul (mat_transpose ?Hc) (mat_transpose S)))))"
    by simp
  with N inverted show ?thesis
    by (intro conjI)
qed

subsection \<open>The polynomial fit\<close>

text \<open>
  Claim C8. For sample vectors \<open>x\<close> and \<open>y\<close> of equal length and a list of exponents \<open>ps\<close>,
  \<^verbatim>\<open>getLeastSquaresPolynomialFit\<close> writes and returns what the least-squares adjustment
  of the matrix \<open>H[i][j] = pow x\<^sub>i p\<^sub>j\<close> against \<open>y\<close> writes and returns as its first
  component, with weights all one and the zero matrix as a-priori inverse covariance
  (and any a-priori adjustment estimate \<open>v\<close>). The equality is between whole outcomes and
  holds for every scalar type.
\<close>

theorem polynomial_fit_is_unweighted_adjustment:
  fixes x :: "'a::{zero,one,plus,times,inverse,ord} vector"
  assumes "length x = length y"
  shows "getLeastSquaresPolynomialFit jacobiSvd pow check maxCondition x y ps =
    (case performLeastSquaresAdjustmentFromInformationMatrix jacobiSvd
            (power_matrix pow x ps) y (replicate (length y) 1)
            (Zero (length ps) (length ps)) v check maxCondition of
       (written, adjustment) \<Rightarrow> (written, on_success adjustment (\<lambda>pair. Inr (fst pair))))"
proof -
  have "performLeastSquaresAdjustmentFromInformationMatrix_noWeights jacobiSvd
          (power_matrix pow x ps) y check maxCondition =
        performLeastSquaresAdjustmentFromInformationMatrix jacobiSvd
          (power_matrix pow x ps) y (replicate (length y) 1)
          (Zero (length ps) (length ps)) v check maxCondition"
    by (simp add: performLeastSquaresAdjustmentFromInformationMatrix_noWeights_def
        performLeastSquaresAdjustmentFromInformationMatrix_noPrior_def
        performLeastSquaresAdjustmentFromInformationMatrix_def Constant_def power_matrix_def)
  then show ?thesis
    unfolding getLeastSquaresPolynomialFit_def partialMatrix_equal_length [OF assms]
    using assms by simp
qed

theorem polynomial_fit_is_unweighted_adjustment_witness:
  "length [-1, 0, 1 :: real] = length [1, 3, 5 :: real]
   \<and> power_matrix naturalPower [-1, 0, 1] [0, 1]
       = \<lparr>nrows = 3, ncols = 2, coeffs = [[1, -1], [1, 0], [1, 1]]\<rparr>
   \<and> performLeastSquaresAdjustmentFromInformationMatrix diagonalSvd
         \<lparr>nrows = 3, ncols = 2, coeffs = [[1, -1], [1, 0], [1, 1]]\<rparr> [1, 3, 5]
         (replicate (length [1, 3, 5 :: real]) 1) (Zero (length [0, 1 :: real]) (length [0, 1 :: real]))
         [] True 100000000
       = ([], Inr ([3, 2], \<lparr>nrows = 2, ncols = 2, coeffs = [[3, 0], [0, 2]]\<rparr>))
   \<and> getLeastSquaresPolynomialFit diagonalSvd naturalPower True 100000000
         [-1, 0, 1] [1, 3, 5] [0, 1]
       = ([], Inr [3, 2])"
proof -
  have same: "length [-1, 0, 1 :: real] = length [1, 3, 5 :: real]"
    by simp
  have H: "power_matrix naturalPower [-1, 0, 1] [0, 1]
             = \<lparr>nrows = 3, ncols = 2, coeffs = [[1, -1], [1, 0], [1, 1]]\<rparr>"
    by code_simp
  have adjustment: "performLeastSquaresAdjustmentFromInformationMatrix diagonalSvd
         \<lparr>nrows = 3, ncols = 2, coeffs = [[1, -1], [1, 0], [1, 1]]\<rparr> [1, 3, 5]
         (replicate (length [1, 3, 5 :: real]) 1) (Zero (length [0, 1 :: real]) (length [0, 1 :: real]))
         [] True 100000000
       = ([], Inr ([3, 2], \<lparr>nrows = 2, ncols = 2, coeffs = [[3, 0], [0, 2]]\<rparr>))"
    by code_simp
  have "getLeastSquaresPolynomialFit diagonalSvd naturalPower True 100000000
         [-1, 0, 1] [1, 3, 5] [0, 1] = ([], Inr [3, 2])"
    unfolding polynomial_fit_is_unweighted_adjustment
                [OF same, of diagonalSvd naturalPower True 100000000 "[0, 1]" "[]"]
              H adjustment
    by (simp add: on_success_def)
  then show ?thesis
    using same H adjustment by (intro conjI)
qed

text \<open>
  Claim C9 describes what the code should do and does not: for sample vectors of unequal
  length the function writes its error message and goes on. With one independent and two
  dependent values it fits the rows that were filled and returns a coefficient.
\<close>

theorem polynomial_fit_goes_on_after_size_error:
  "length [2 :: real] \<noteq> length [3, 5 :: real]
   \<and> getLeastSquaresPolynomialFit diagonalSvd naturalPower True 100000000 [2] [3, 5] [0]
       = ([PolynomialFitSizeError], Inr [3])"
  by code_simp

end
